theory Spec2Isabelle
  imports Main "HOL-Library.Word"
begin

unbundle bit_operations_syntax

section \<open>The rule engine of \<open>src/addons/rules.c\<close>: data model\<close>

text \<open>
  Entity ids and component ids are 64-bit integers (\<open>ecs_entity_t\<close>, \<open>ecs_id_t\<close>).
  C \<open>int32_t\<close> counters and indices stay far below their range in everything modelled
  here, so they are \<open>int\<close> (or \<open>nat\<close> for array positions).
\<close>

type_synonym ecs_entity_t = "64 word"
type_synonym ecs_id_t = "64 word"

text \<open>\<open>ecs_rule_var_kind_t\<close>; the enum's integer values are used by the sort.\<close>

datatype ecs_rule_var_kind_t =
  EcsRuleVarKindTable | EcsRuleVarKindEntity | EcsRuleVarKindUnknown

fun var_kind_value :: "ecs_rule_var_kind_t \<Rightarrow> int" where
  "var_kind_value EcsRuleVarKindTable = 0"
| "var_kind_value EcsRuleVarKindEntity = 1"
| "var_kind_value EcsRuleVarKindUnknown = 2"

text \<open>
  \<open>ecs_rule_var_t\<close>. A pointer to a variable is modelled as its position in the
  variable array of the rule.\<close>

record ecs_rule_var_t =
  v_kind :: ecs_rule_var_kind_t
  v_name :: string
  v_id :: int
  v_occurs :: int
  v_depth :: int
  v_marked :: bool

definition UINT8_MAX :: int where
  "UINT8_MAX = 255"

definition ECS_RULE_MAX_VARIABLE_COUNT :: int where
  "ECS_RULE_MAX_VARIABLE_COUNT = 256"

section \<open>Variable table\<close>

text \<open>\<open>get_var_name\<close>: both \<open>This\<close> and \<open>.\<close> resolve to the same variable.\<close>

definition get_var_name :: "string \<Rightarrow> string" where
  "get_var_name name = (if name = ''This'' then ''.'' else name)"

text \<open>
  \<open>find_variable\<close>: the first variable, in array order, whose name is the (aliased)
  name and whose kind is the requested one; kind \<open>Unknown\<close> accepts any kind.
  The result is the position in the array, \<open>None\<close> for the C \<open>NULL\<close>.\<close>

fun find_variable_loop ::
  "ecs_rule_var_t list \<Rightarrow> ecs_rule_var_kind_t \<Rightarrow> string \<Rightarrow> nat \<Rightarrow> nat option" where
  "find_variable_loop [] kind name i = None"
| "find_variable_loop (variable # rest) kind name i =
     (if v_name variable = name \<and> (kind = EcsRuleVarKindUnknown \<or> v_kind variable = kind)
      then Some i
      else find_variable_loop rest kind name (Suc i))"

definition find_variable ::
  "ecs_rule_var_t list \<Rightarrow> ecs_rule_var_kind_t \<Rightarrow> string \<Rightarrow> nat option" where
  "find_variable variables kind name = find_variable_loop variables kind (get_var_name name) 0"

text \<open>\<open>ecs_rule_find_var\<close>: the public lookup, always with kind \<open>Entity\<close>.\<close>

definition ecs_rule_find_var :: "ecs_rule_var_t list \<Rightarrow> string \<Rightarrow> int" where
  "ecs_rule_find_var variables name =
     (case find_variable variables EcsRuleVarKindEntity name of
        Some i \<Rightarrow> v_id (variables ! i)
      | None \<Rightarrow> -1)"

section \<open>Ordering of variables\<close>

text \<open>
  \<open>compare_variable\<close>, the comparator handed to \<open>qsort\<close>. The third test returns in
  both of its branches, so the statement after it in the source,
  \<open>return (v1->id < v2->id) - (v1->id > v2->id)\<close>, is never reached.\<close>

definition compare_variable :: "ecs_rule_var_t \<Rightarrow> ecs_rule_var_t \<Rightarrow> int" where
  "compare_variable v1 v2 =
     (if var_kind_value (v_kind v1) < var_kind_value (v_kind v2) then -1
      else if var_kind_value (v_kind v1) > var_kind_value (v_kind v2) then 1
      else if v_depth v1 < v_depth v2 then -1
      else if v_depth v1 > v_depth v2 then 1
      else if v_occurs v1 < v_occurs v2 then 1
      else -1)"

text \<open>
  The order the specification words: kind ascending, depth ascending, occurrence
  descending, id descending. Written from the specification, to compare with
  \<open>compare_variable\<close>.\<close>

definition spec_four_key_compare :: "ecs_rule_var_t \<Rightarrow> ecs_rule_var_t \<Rightarrow> int" where
  "spec_four_key_compare v1 v2 =
     (if var_kind_value (v_kind v1) < var_kind_value (v_kind v2) then -1
      else if var_kind_value (v_kind v1) > var_kind_value (v_kind v2) then 1
      else if v_depth v1 < v_depth v2 then -1
      else if v_depth v1 > v_depth v2 then 1
      else if v_occurs v1 > v_occurs v2 then -1
      else if v_occurs v1 < v_occurs v2 then 1
      else if v_id v1 > v_id v2 then -1
      else if v_id v1 < v_id v2 then 1
      else 0)"

section \<open>Terms\<close>

text \<open>
  The term types \<open>ecs_term_id_t\<close> and \<open>ecs_term_t\<close> are declared in a header that is not
  among the sources; the fields that \<open>rules.c\<close> reads are modelled. \<open>ti_nothing\<close> is the
  test \<open>set.mask & EcsNothing\<close>, \<open>ti_is_set\<close> is what the helper \<open>ecs_term_id_is_set\<close>
  answers for the identifier, and \<open>t_role_pair\<close> is the test \<open>term->role == ECS_PAIR\<close>.
  A term identifier that is a variable always carries a name (the source checks it with
  \<open>ecs_check\<close>), so names are plain strings.\<close>

datatype ecs_var_kind_t = EcsVarDefault | EcsVarIsEntity | EcsVarIsVariable

datatype ecs_oper_kind_t = EcsAnd | EcsOr | EcsNot | EcsOptional

record ecs_term_id_t =
  ti_entity :: ecs_entity_t
  ti_name :: string
  ti_var :: ecs_var_kind_t
  ti_nothing :: bool
  ti_is_set :: bool

record ecs_term_t =
  t_pred :: ecs_term_id_t
  t_subj :: ecs_term_id_t
  t_obj :: ecs_term_id_t
  t_oper :: ecs_oper_kind_t
  t_role_pair :: bool

text \<open>
  The builtin entity ids \<open>EcsThis\<close> and \<open>EcsWildcard\<close> are constants of the same missing
  header. Their values are not fixed here: every function that compares with one of them
  takes the pair of ids as a parameter.\<close>

record ecs_builtin_t =
  EcsThis :: ecs_entity_t
  EcsWildcard :: ecs_entity_t

text \<open>
  \<open>ecs_rule_pair_t\<close>. Predicate and object are C unions of a register index and an
  entity id; each union is modelled by two fields, and \<open>reg_mask\<close> says which one is
  live (bit 1: the predicate is a register, bit 2: the object is a register).\<close>

record ecs_rule_pair_t =
  pred_reg :: int
  pred_ent :: ecs_entity_t
  obj_reg :: int
  obj_ent :: ecs_entity_t
  reg_mask :: "32 word"
  transitive :: bool
  final :: bool
  inclusive :: bool
  obj_0 :: bool

definition RULE_PAIR_PREDICATE :: "32 word" where
  "RULE_PAIR_PREDICATE = 1"

definition RULE_PAIR_OBJECT :: "32 word" where
  "RULE_PAIR_OBJECT = 2"

text \<open>\<open>ecs_rule_filter_t\<close>, made ad hoc from a pair and the registers.\<close>

record ecs_rule_filter_t =
  f_mask :: ecs_id_t
  f_wildcard :: bool
  f_pred_wildcard :: bool
  f_obj_wildcard :: bool
  f_same_var :: bool
  f_hi_var :: int
  f_lo_var :: int

text \<open>\<open>ecs_rule_reg_t\<close>; a table pointer is a table handle, \<open>None\<close> for \<open>NULL\<close>.\<close>

record ecs_rule_reg_t =
  r_table :: "nat option"
  r_offset :: int
  r_count :: int
  r_entity :: ecs_entity_t

datatype ecs_rule_op_kind_t =
    EcsRuleInput
  | EcsRuleSelect
  | EcsRuleWith
  | EcsRuleSubSet
  | EcsRuleSuperSet
  | EcsRuleStore
  | EcsRuleEach
  | EcsRuleSetJmp
  | EcsRuleJump
  | EcsRuleNot
  | EcsRuleYield

record ecs_rule_op_t =
  op_kind :: ecs_rule_op_kind_t
  op_filter :: ecs_rule_pair_t
  op_subject :: ecs_entity_t
  on_pass :: int
  on_fail :: int
  op_frame :: int
  op_term :: int
  r_in :: int
  r_out :: int
  has_in :: bool
  has_out :: bool

text \<open>
  \<open>ecs_rule_t\<close>: the filter's terms, the variable array (its length is
  \<open>variable_count\<close>), the operations (their number is \<open>operation_count\<close>) and the
  frame counter.\<close>

record ecs_rule_t =
  terms :: "ecs_term_t list"
  variables :: "ecs_rule_var_t list"
  subject_variable_count :: int
  operations :: "ecs_rule_op_t list"
  frame_count :: int

definition variable_count :: "ecs_rule_t \<Rightarrow> int" where
  "variable_count rule = int (length (variables rule))"

definition subj_is_set :: "ecs_term_t \<Rightarrow> bool" where
  "subj_is_set term = ti_is_set (t_subj term)"

definition obj_is_set :: "ecs_term_t \<Rightarrow> bool" where
  "obj_is_set term = (ti_is_set (t_obj term) \<or> t_role_pair term)"

text \<open>
  \<open>create_variable\<close> appends a variable and returns its position. A \<open>NULL\<close> name
  (\<open>None\<close>) makes an anonymous register named by an underscore and its id in decimal.\<close>

fun digit_char :: "nat \<Rightarrow> char" where
  "digit_char n = char_of (48 + n)"

function decimal :: "nat \<Rightarrow> string" where
  "decimal n = (if n < 10 then [digit_char n] else decimal (n div 10) @ [digit_char (n mod 10)])"
  by pat_completeness auto
termination
  by (relation "measure (\<lambda>n. n)") auto

declare decimal.simps [simp del]

definition create_variable ::
  "ecs_rule_t \<Rightarrow> ecs_rule_var_kind_t \<Rightarrow> string option \<Rightarrow> ecs_rule_t \<times> nat" where
  "create_variable rule kind name =
     (let cur = length (variables rule) + 1;
          var = \<lparr>v_kind = kind,
                 v_name = (case name of
                             Some n \<Rightarrow> get_var_name n
                           | None \<Rightarrow> CHR ''_'' # decimal (cur - 1)),
                 v_id = int cur - 1,
                 v_occurs = 0,
                 v_depth = UINT8_MAX,
                 v_marked = False\<rparr>
      in (rule\<lparr>variables := variables rule @ [var]\<rparr>, cur - 1))"

definition ensure_variable ::
  "ecs_rule_t \<Rightarrow> ecs_rule_var_kind_t \<Rightarrow> string \<Rightarrow> ecs_rule_t \<times> nat" where
  "ensure_variable rule kind name =
     (case find_variable (variables rule) kind name of
        None \<Rightarrow> create_variable rule kind (Some name)
      | Some i \<Rightarrow>
          (if v_kind (variables rule ! i) = EcsRuleVarKindUnknown
           then (rule\<lparr>variables := (variables rule)[i := (variables rule ! i)\<lparr>v_kind := kind\<rparr>]\<rparr>, i)
           else (rule, i)))"

definition term_id_is_variable :: "ecs_term_id_t \<Rightarrow> bool" where
  "term_id_is_variable term_id = (ti_var term_id = EcsVarIsVariable)"

text \<open>\<open>term_id_var_name\<close>: \<open>None\<close> is the C \<open>NULL\<close> returned for a non-variable.\<close>

definition term_id_var_name :: "ecs_builtin_t \<Rightarrow> ecs_term_id_t \<Rightarrow> string option" where
  "term_id_var_name b term_id =
     (if ti_var term_id = EcsVarIsVariable
      then (if ti_entity term_id = EcsThis b then Some ''.'' else Some (ti_name term_id))
      else None)"

definition term_id_to_var :: "ecs_builtin_t \<Rightarrow> ecs_rule_t \<Rightarrow> ecs_term_id_t \<Rightarrow> nat option" where
  "term_id_to_var b rule term_id =
     (if ti_var term_id = EcsVarIsVariable
      then (case term_id_var_name b term_id of
              Some n \<Rightarrow> find_variable (variables rule) EcsRuleVarKindUnknown n
            | None \<Rightarrow> None)
      else None)"

definition term_pred :: "ecs_builtin_t \<Rightarrow> ecs_rule_t \<Rightarrow> ecs_term_t \<Rightarrow> nat option" where
  "term_pred b rule term = term_id_to_var b rule (t_pred term)"

definition term_subj :: "ecs_builtin_t \<Rightarrow> ecs_rule_t \<Rightarrow> ecs_term_t \<Rightarrow> nat option" where
  "term_subj b rule term = term_id_to_var b rule (t_subj term)"

definition term_obj :: "ecs_builtin_t \<Rightarrow> ecs_rule_t \<Rightarrow> ecs_term_t \<Rightarrow> nat option" where
  "term_obj b rule term =
     (if obj_is_set term then term_id_to_var b rule (t_obj term) else None)"

definition is_subject :: "ecs_rule_t \<Rightarrow> nat option \<Rightarrow> bool" where
  "is_subject rule var =
     (case var of
        None \<Rightarrow> False
      | Some i \<Rightarrow> v_id (variables rule ! i) < subject_variable_count rule)"

definition skip_term :: "ecs_term_t \<Rightarrow> bool" where
  "skip_term term = (ti_nothing (t_subj term) \<or> t_oper term = EcsNot)"

definition set_marked :: "ecs_rule_t \<Rightarrow> nat \<Rightarrow> bool \<Rightarrow> ecs_rule_t" where
  "set_marked rule i m = rule\<lparr>variables := (variables rule)[i := (variables rule ! i)\<lparr>v_marked := m\<rparr>]\<rparr>"

definition set_depth :: "ecs_rule_t \<Rightarrow> nat \<Rightarrow> int \<Rightarrow> ecs_rule_t" where
  "set_depth rule i d = rule\<lparr>variables := (variables rule)[i := (variables rule ! i)\<lparr>v_depth := d\<rparr>]\<rparr>"

definition set_occurs :: "ecs_rule_t \<Rightarrow> nat \<Rightarrow> int \<Rightarrow> ecs_rule_t" where
  "set_occurs rule i n = rule\<lparr>variables := (variables rule)[i := (variables rule ! i)\<lparr>v_occurs := n\<rparr>]\<rparr>"

section \<open>Dependency depth\<close>

text \<open>
  \<open>get_variable_depth\<close>, \<open>get_depth_from_term\<close>, \<open>get_depth_from_var\<close> and
  \<open>crawl_variable\<close> call each other; the recursion is bounded by the marks it leaves on
  the variables. In the model the nested call of \<open>get_variable_depth\<close> is the parameter
  \<open>gvd\<close> of the three helpers, and \<open>get_variable_depth\<close> itself recurses on a fuel
  counter: \<open>None\<close> means the fuel ran out before the call returned. The state threaded
  through is the rule (only depths and marks of its variables change).\<close>

type_synonym depth_call = "ecs_rule_t \<Rightarrow> nat \<Rightarrow> nat \<Rightarrow> (ecs_rule_t \<times> int) option"

definition get_depth_from_var ::
  "depth_call \<Rightarrow> ecs_rule_t \<Rightarrow> nat \<Rightarrow> nat \<Rightarrow> (ecs_rule_t \<times> int) option" where
  "get_depth_from_var gvd rule var root =
     (if var = root \<or> v_depth (variables rule ! var) \<noteq> UINT8_MAX
      then Some (rule, v_depth (variables rule ! var) + 1)
      else if v_marked (variables rule ! var) then Some (rule, 0)
      else (case gvd rule var root of
              None \<Rightarrow> None
            | Some (rule', depth) \<Rightarrow>
                if depth = UINT8_MAX then Some (rule', depth) else Some (rule', depth + 1)))"

definition get_depth_from_term ::
  "depth_call \<Rightarrow> ecs_rule_t \<Rightarrow> nat \<Rightarrow> nat option \<Rightarrow> nat option \<Rightarrow> nat
     \<Rightarrow> (ecs_rule_t \<times> int) option" where
  "get_depth_from_term gvd rule cur pred obj root =
     (if pred = None \<and> obj = None then Some (rule, 0)
      else
        (case (if pred \<noteq> None \<and> Some cur \<noteq> pred
               then (case get_depth_from_var gvd rule (the pred) root of
                       None \<Rightarrow> None
                     | Some (rule1, depth) \<Rightarrow>
                         if depth = UINT8_MAX then Some (rule1, UINT8_MAX, True)
                         else Some (rule1, (if depth < UINT8_MAX then depth else UINT8_MAX), False))
               else Some (rule, UINT8_MAX, False)) of
           None \<Rightarrow> None
         | Some (rule1, result, returned) \<Rightarrow>
             if returned then Some (rule1, UINT8_MAX)
             else if obj \<noteq> None \<and> Some cur \<noteq> obj
             then (case get_depth_from_var gvd rule1 (the obj) root of
                     None \<Rightarrow> None
                   | Some (rule2, depth) \<Rightarrow>
                       if depth = UINT8_MAX then Some (rule2, UINT8_MAX)
                       else Some (rule2, (if depth < result then depth else result)))
             else Some (rule1, result)))"

text \<open>One conditional nested call of \<open>crawl_variable\<close>: \<open>if (v && v != var && !v->marked)\<close>.\<close>

definition crawl_call ::
  "depth_call \<Rightarrow> ecs_rule_t \<Rightarrow> nat \<Rightarrow> nat option \<Rightarrow> nat \<Rightarrow> ecs_rule_t option" where
  "crawl_call gvd rule var v root =
     (case v of
        None \<Rightarrow> Some rule
      | Some i \<Rightarrow>
          if i \<noteq> var \<and> \<not> v_marked (variables rule ! i)
          then map_option fst (gvd rule i root)
          else Some rule)"

fun crawl_variable_loop ::
  "depth_call \<Rightarrow> ecs_builtin_t \<Rightarrow> nat \<Rightarrow> nat \<Rightarrow> ecs_term_t list \<Rightarrow> ecs_rule_t
     \<Rightarrow> ecs_rule_t option" where
  "crawl_variable_loop gvd b var root [] rule = Some rule"
| "crawl_variable_loop gvd b var root (term # rest) rule =
     (if skip_term term then crawl_variable_loop gvd b var root rest rule
      else
        (let pred = term_pred b rule term;
             subj = term_subj b rule term;
             obj = term_obj b rule term
         in if Some var \<noteq> pred \<and> Some var \<noteq> subj \<and> Some var \<noteq> obj
            then crawl_variable_loop gvd b var root rest rule
            else
              (case crawl_call gvd rule var pred root of
                 None \<Rightarrow> None
               | Some rule1 \<Rightarrow>
                   (case crawl_call gvd rule1 var subj root of
                      None \<Rightarrow> None
                    | Some rule2 \<Rightarrow>
                        (case crawl_call gvd rule2 var obj root of
                           None \<Rightarrow> None
                         | Some rule3 \<Rightarrow> crawl_variable_loop gvd b var root rest rule3)))))"

definition crawl_variable ::
  "depth_call \<Rightarrow> ecs_builtin_t \<Rightarrow> ecs_rule_t \<Rightarrow> nat \<Rightarrow> nat \<Rightarrow> ecs_rule_t option" where
  "crawl_variable gvd b rule var root = crawl_variable_loop gvd b var root (terms rule) rule"

text \<open>The first loop of \<open>get_variable_depth\<close>: the smallest depth over the terms of \<open>var\<close>.\<close>

fun depth_loop ::
  "depth_call \<Rightarrow> ecs_builtin_t \<Rightarrow> nat \<Rightarrow> nat \<Rightarrow> ecs_term_t list \<Rightarrow> ecs_rule_t \<Rightarrow> int
     \<Rightarrow> (ecs_rule_t \<times> int) option" where
  "depth_loop gvd b var root [] rule result = Some (rule, result)"
| "depth_loop gvd b var root (term # rest) rule result =
     (if skip_term term then depth_loop gvd b var root rest rule result
      else
        (let pred = term_pred b rule term;
             subj = term_subj b rule term;
             obj = term_obj b rule term
         in if subj \<noteq> Some var then depth_loop gvd b var root rest rule result
            else
              (let pred' = (if is_subject rule pred then pred else None);
                   obj' = (if is_subject rule obj then obj else None)
               in case get_depth_from_term gvd rule var pred' obj' root of
                    None \<Rightarrow> None
                  | Some (rule', depth) \<Rightarrow>
                      depth_loop gvd b var root rest rule'
                        (if depth < result then depth else result))))"

text \<open>The second loop of \<open>get_variable_depth\<close>: follow predicate and object links.\<close>

fun follow_loop ::
  "depth_call \<Rightarrow> ecs_builtin_t \<Rightarrow> nat \<Rightarrow> nat \<Rightarrow> ecs_term_t list \<Rightarrow> ecs_rule_t
     \<Rightarrow> ecs_rule_t option" where
  "follow_loop gvd b var root [] rule = Some rule"
| "follow_loop gvd b var root (term # rest) rule =
     (if skip_term term then follow_loop gvd b var root rest rule
      else
        (let subj = term_subj b rule term;
             pred = term_pred b rule term;
             obj = term_obj b rule term
         in if subj \<noteq> Some var then follow_loop gvd b var root rest rule
            else
              (case crawl_variable gvd b rule var root of
                 None \<Rightarrow> None
               | Some rule1 \<Rightarrow>
                   (case (if pred \<noteq> None \<and> pred \<noteq> Some var
                          then crawl_variable gvd b rule1 (the pred) root else Some rule1) of
                      None \<Rightarrow> None
                    | Some rule2 \<Rightarrow>
                        (case (if obj \<noteq> None \<and> obj \<noteq> Some var
                               then crawl_variable gvd b rule2 (the obj) root else Some rule2) of
                           None \<Rightarrow> None
                         | Some rule3 \<Rightarrow> follow_loop gvd b var root rest rule3)))))"

primrec get_variable_depth ::
  "nat \<Rightarrow> ecs_builtin_t \<Rightarrow> ecs_rule_t \<Rightarrow> nat \<Rightarrow> nat \<Rightarrow> (ecs_rule_t \<times> int) option" where
  "get_variable_depth 0 b = (\<lambda>rule var root. None)"
| "get_variable_depth (Suc fuel) b = (\<lambda>rule var root.
     (let rule1 = set_marked rule var True
      in case depth_loop (get_variable_depth fuel b) b var root (terms rule1) rule1 UINT8_MAX of
           None \<Rightarrow> None
         | Some (rule2, result) \<Rightarrow>
             (let rule3 = set_depth rule2 var (if result = UINT8_MAX then 0 else result)
              in case follow_loop (get_variable_depth fuel b) b var root (terms rule3) rule3 of
                   None \<Rightarrow> None
                 | Some rule4 \<Rightarrow> Some (rule4, v_depth (variables rule4 ! var)))))"

section \<open>Variable scan\<close>

text \<open>
  What \<open>rule_error\<close> reports before \<open>scan_variables\<close> or \<open>ecs_rule_init\<close> gives up,
  one constructor per message of the source; \<open>FilterInitFailed\<close> is the failure of the
  term parser \<open>ecs_filter_init\<close>.\<close>

datatype rule_error =
    FilterInitFailed
  | RuleHasNoTerms
  | RuleOnlyNotTerms
  | TooManyVariables
  | UnconstrainedVariable string
  | MissingPredicateVariable string
  | MissingObjectVariable string

text \<open>
  Step 1 of \<open>scan_variables\<close>: every variable subject becomes a Table variable and its
  occurrences are counted. \<open>subject_count\<close> is the local counter the overflow test reads;
  the loop of the source has no statement that changes it, so it is passed along as it
  is. The branch for a missing name is not reached (a variable identifier has a name).\<close>

fun find_roots_loop ::
  "ecs_builtin_t \<Rightarrow> ecs_term_t list \<Rightarrow> int \<Rightarrow> ecs_rule_t \<Rightarrow> int \<Rightarrow> int
     \<Rightarrow> rule_error + (ecs_rule_t \<times> int \<times> int)" where
  "find_roots_loop b [] subject_count rule max_occur max_occur_var =
     Inr (rule, max_occur, max_occur_var)"
| "find_roots_loop b (term # rest) subject_count rule max_occur max_occur_var =
     (if term_id_is_variable (t_subj term)
      then
        (case term_id_var_name b (t_subj term) of
           None \<Rightarrow> find_roots_loop b rest subject_count rule max_occur max_occur_var
         | Some subj_name \<Rightarrow>
             (case (case find_variable (variables rule) EcsRuleVarKindTable subj_name of
                      Some i \<Rightarrow> Inr (rule, i)
                    | None \<Rightarrow>
                        (if subject_count \<ge> ECS_RULE_MAX_VARIABLE_COUNT
                         then Inl TooManyVariables
                         else Inr (create_variable rule EcsRuleVarKindTable (Some subj_name)))) of
                Inl e \<Rightarrow> Inl e
              | Inr (rule1, subj) \<Rightarrow>
                  (let occurs = v_occurs (variables rule1 ! subj) + 1;
                       rule2 = set_occurs rule1 subj occurs
                   in if occurs > max_occur
                      then find_roots_loop b rest subject_count rule2 occurs
                             (v_id (variables rule2 ! subj))
                      else find_roots_loop b rest subject_count rule2 max_occur max_occur_var)))
      else find_roots_loop b rest subject_count rule max_occur max_occur_var)"

text \<open>\<open>ensure_all_variables\<close>: predicate, non-This subject and object variables of the
  terms that are not skipped are registered as Entity variables.\<close>

definition ensure_named ::
  "ecs_builtin_t \<Rightarrow> ecs_rule_t \<Rightarrow> ecs_term_id_t \<Rightarrow> ecs_rule_t" where
  "ensure_named b rule term_id =
     (case term_id_var_name b term_id of
        None \<Rightarrow> rule
      | Some n \<Rightarrow> fst (ensure_variable rule EcsRuleVarKindEntity n))"

fun ensure_all_variables_loop ::
  "ecs_builtin_t \<Rightarrow> ecs_term_t list \<Rightarrow> ecs_rule_t \<Rightarrow> ecs_rule_t" where
  "ensure_all_variables_loop b [] rule = rule"
| "ensure_all_variables_loop b (term # rest) rule =
     (if skip_term term then ensure_all_variables_loop b rest rule
      else
        (let rule1 = (if ti_var (t_pred term) = EcsVarIsVariable
                      then ensure_named b rule (t_pred term) else rule);
             rule2 = (if ti_var (t_subj term) = EcsVarIsVariable
                         \<and> ti_entity (t_subj term) \<noteq> EcsThis b
                      then ensure_named b rule1 (t_subj term) else rule1);
             rule3 = (if obj_is_set term \<and> ti_var (t_obj term) = EcsVarIsVariable
                      then ensure_named b rule2 (t_obj term) else rule2)
         in ensure_all_variables_loop b rest rule3))"

definition ensure_all_variables :: "ecs_builtin_t \<Rightarrow> ecs_rule_t \<Rightarrow> ecs_rule_t" where
  "ensure_all_variables b rule = ensure_all_variables_loop b (terms rule) rule"

text \<open>Variables in a term with a literal subject have depth 0.\<close>

fun literal_depth_loop ::
  "ecs_builtin_t \<Rightarrow> ecs_term_t list \<Rightarrow> ecs_rule_t \<Rightarrow> ecs_rule_t" where
  "literal_depth_loop b [] rule = rule"
| "literal_depth_loop b (term # rest) rule =
     (if ti_var (t_subj term) = EcsVarIsEntity
      then
        (let pred = term_pred b rule term;
             obj = term_obj b rule term;
             rule1 = (case pred of Some p \<Rightarrow> set_depth rule p 0 | None \<Rightarrow> rule);
             rule2 = (case obj of Some ob \<Rightarrow> set_depth rule1 ob 0 | None \<Rightarrow> rule1)
         in literal_depth_loop b rest rule2)
      else literal_depth_loop b rest rule)"

text \<open>The first subject variable (array position below \<open>count\<close>) whose depth is still
  \<open>UINT8_MAX\<close>.\<close>

fun unconstrained_loop :: "ecs_rule_var_t list \<Rightarrow> nat \<Rightarrow> string option" where
  "unconstrained_loop [] count = None"
| "unconstrained_loop (var # rest) count =
     (if count = 0 then None
      else if v_depth var = UINT8_MAX then Some (v_name var)
      else unconstrained_loop rest (count - 1))"

text \<open>For each Not term, verify that predicate and object variables are known.\<close>

fun check_not_loop :: "ecs_builtin_t \<Rightarrow> ecs_rule_t \<Rightarrow> ecs_term_t list \<Rightarrow> rule_error option" where
  "check_not_loop b rule [] = None"
| "check_not_loop b rule (term # rest) =
     (if t_oper term \<noteq> EcsNot then check_not_loop b rule rest
      else
        (let pred = term_pred b rule term;
             obj = term_obj b rule term
         in if pred = None \<and> term_id_is_variable (t_pred term)
            then Some (MissingPredicateVariable
                         (case term_id_var_name b (t_pred term) of Some n \<Rightarrow> n | None \<Rightarrow> []))
            else if obj = None \<and> term_id_is_variable (t_obj term)
            then Some (MissingObjectVariable
                         (case term_id_var_name b (t_obj term) of Some n \<Rightarrow> n | None \<Rightarrow> []))
            else check_not_loop b rule rest))"

text \<open>After the sort every variable's id is its position again.\<close>

fun renumber :: "ecs_rule_var_t list \<Rightarrow> int \<Rightarrow> ecs_rule_var_t list" where
  "renumber [] i = []"
| "renumber (var # rest) i = var\<lparr>v_id := i\<rparr> # renumber rest (i + 1)"

text \<open>
  \<open>scan_variables\<close>. The sorting routine \<open>ecs_qsort_t\<close> is not among the sources and is
  the parameter \<open>qsort\<close> (it receives the comparator). \<open>this_var\<close> is initialised to
  \<open>UINT8_MAX\<close> and the source never assigns it again. The result is \<open>None\<close> when the
  depth computation runs out of fuel, \<open>Some (Inl e)\<close> for the error return \<open>-1\<close> with
  the message \<open>e\<close>, and \<open>Some (Inr rule)\<close> for the return \<open>0\<close>.\<close>

type_synonym qsort_t =
  "(ecs_rule_var_t \<Rightarrow> ecs_rule_var_t \<Rightarrow> int) \<Rightarrow> ecs_rule_var_t list \<Rightarrow> ecs_rule_var_t list"

definition scan_variables ::
  "qsort_t \<Rightarrow> ecs_builtin_t \<Rightarrow> nat \<Rightarrow> ecs_rule_t \<Rightarrow> (rule_error + ecs_rule_t) option" where
  "scan_variables qsort b fuel rule =
     (let subject_count = 0;
          this_var = UINT8_MAX
      in case find_roots_loop b (terms rule) subject_count rule 0 UINT8_MAX of
           Inl e \<Rightarrow> Some (Inl e)
         | Inr (rule1, max_occur, max_occur_var) \<Rightarrow>
             (let rule2 = rule1\<lparr>subject_variable_count := variable_count rule1\<rparr>;
                  rule3 = ensure_all_variables b rule2;
                  rule4 = literal_depth_loop b (terms rule3) rule3;
                  root_var = (if this_var = UINT8_MAX then max_occur_var else this_var)
              in if root_var = UINT8_MAX then Some (Inr rule4)
                 else
                   (case get_variable_depth fuel b rule4 (nat root_var) (nat root_var) of
                      None \<Rightarrow> None
                    | Some (rule5, depth) \<Rightarrow>
                        (let rule6 = set_depth rule5 (nat root_var) depth
                         in case unconstrained_loop (variables rule6)
                                   (nat (subject_variable_count rule6)) of
                              Some name \<Rightarrow> Some (Inl (UnconstrainedVariable name))
                            | None \<Rightarrow>
                                (case check_not_loop b rule6 (terms rule6) of
                                   Some e \<Rightarrow> Some (Inl e)
                                 | None \<Rightarrow>
                                     Some (Inr (rule6\<lparr>variables :=
                                       renumber (qsort compare_variable (variables rule6)) 0\<rparr>)))))))"

section \<open>Rule construction\<close>

text \<open>The loop of \<open>ecs_rule_init\<close> that stops at the first term that is not a Not term;
  the result is the value of \<open>i\<close> after the loop.\<close>

fun first_non_not :: "ecs_term_t list \<Rightarrow> nat \<Rightarrow> nat" where
  "first_non_not [] i = i"
| "first_non_not (term # rest) i =
     (if t_oper term \<noteq> EcsNot then i else first_non_not rest (Suc i))"

text \<open>
  \<open>ecs_rule_init\<close>. The parsed filter is the input: \<open>None\<close> when \<open>ecs_filter_init\<close>
  failed, else the term list. The rule object starts zeroed. What follows a successful
  variable scan (\<open>compile_program\<close>, the variable name array and the subject lookup
  array) cannot report an error; it is the parameter \<open>emit\<close>, a function from the
  analysed rule to the finished rule object. \<open>Some (Inl e)\<close> is the \<open>NULL\<close> return
  after the message \<open>e\<close>, \<open>Some (Inr rule)\<close> the rule handle.\<close>

definition ecs_rule_init ::
  "qsort_t \<Rightarrow> (ecs_rule_t \<Rightarrow> 'r) \<Rightarrow> ecs_builtin_t \<Rightarrow> nat \<Rightarrow> ecs_term_t list option
     \<Rightarrow> (rule_error + 'r) option" where
  "ecs_rule_init qsort emit b fuel parsed =
     (case parsed of
        None \<Rightarrow> Some (Inl FilterInitFailed)
      | Some ts \<Rightarrow>
          if length ts = 0 then Some (Inl RuleHasNoTerms)
          else if first_non_not ts 0 = length ts then Some (Inl RuleOnlyNotTerms)
          else
            (case scan_variables qsort b fuel
                    \<lparr>terms = ts, variables = [], subject_variable_count = 0,
        operations = [], frame_count = 0\<rparr> of
               None \<Rightarrow> None
             | Some (Inl e) \<Rightarrow> Some (Inl e)
             | Some (Inr rule) \<Rightarrow> Some (Inr (emit rule))))"

section \<open>Identifier encoding and the storage interface\<close>

text \<open>
  Modelled from the spec: the macros \<open>ecs_entity_t_lo\<close>, \<open>ecs_entity_t_hi\<close>,
  \<open>ecs_entity_t_comb\<close>, \<open>ecs_pair\<close>, \<open>ECS_HAS_ROLE\<close>, \<open>ECS_PAIR_RELATION\<close> and
  \<open>ECS_PAIR_OBJECT\<close> are declared in headers that are not among the sources. The
  specification says that an id is a 64-bit integer with a low id field and a high
  generation field, and that a pair id combines a relation and an object id and carries
  a tag that tells it from a plain id: the low 32 bits hold the object, the next bits the
  relation, the top byte the tag.\<close>

definition ecs_entity_t_lo :: "ecs_entity_t \<Rightarrow> ecs_entity_t" where
  "ecs_entity_t_lo x = x AND 0xFFFFFFFF"

definition ecs_entity_t_hi :: "ecs_entity_t \<Rightarrow> ecs_entity_t" where
  "ecs_entity_t_hi x = drop_bit 32 x"

definition ecs_entity_t_comb :: "ecs_entity_t \<Rightarrow> ecs_entity_t \<Rightarrow> ecs_entity_t" where
  "ecs_entity_t_comb lo hi = push_bit 32 hi + (lo AND 0xFFFFFFFF)"

definition ECS_ROLE_MASK :: ecs_id_t where
  "ECS_ROLE_MASK = 0xFF00000000000000"

definition ECS_PAIR :: ecs_id_t where
  "ECS_PAIR = 0xFA00000000000000"

definition ecs_pair :: "ecs_entity_t \<Rightarrow> ecs_entity_t \<Rightarrow> ecs_id_t" where
  "ecs_pair pred obj = ECS_PAIR OR ecs_entity_t_comb obj pred"

definition ECS_HAS_ROLE_PAIR :: "ecs_id_t \<Rightarrow> bool" where
  "ECS_HAS_ROLE_PAIR e = (e AND ECS_ROLE_MASK = ECS_PAIR)"

definition ECS_PAIR_RELATION :: "ecs_id_t \<Rightarrow> ecs_entity_t" where
  "ECS_PAIR_RELATION e = ecs_entity_t_hi (e AND NOT ECS_ROLE_MASK)"

definition ECS_PAIR_OBJECT :: "ecs_id_t \<Rightarrow> ecs_entity_t" where
  "ECS_PAIR_OBJECT e = ecs_entity_t_lo e"

text \<open>
  The storage layer is outside the sources; the rule engine reaches it through the
  functions below, which are the fields of the world: \<open>ecs_is_valid\<close>,
  \<open>ecs_get_alive\<close>, \<open>ecs_eis_get\<close> (the entity's table, if it has a record; the table
  itself may be \<open>NULL\<close>; and its row), \<open>flecs_get_id_record\<close> with
  \<open>flecs_id_record_tables\<close>, \<open>flecs_get_table_record\<close> (the column of an id in a
  table), the type and the entity vector of a table, and \<open>ecs_id_match\<close>. A table and
  an id record are handles (natural numbers).\<close>

record ecs_table_record_t =
  tr_table :: nat
  tr_column :: int

record ecs_world_t =
  is_valid :: "ecs_entity_t \<Rightarrow> bool"
  get_alive :: "ecs_entity_t \<Rightarrow> ecs_entity_t"
  eis_get :: "ecs_entity_t \<Rightarrow> (nat option \<times> int) option"
  get_id_record :: "ecs_id_t \<Rightarrow> nat option"
  id_record_tables :: "nat \<Rightarrow> ecs_table_record_t list"
  get_table_record :: "nat \<Rightarrow> ecs_id_t \<Rightarrow> int option"
  table_type :: "nat \<Rightarrow> ecs_id_t list"
  table_entities :: "nat \<Rightarrow> ecs_entity_t list"
  id_match :: "ecs_id_t \<Rightarrow> ecs_id_t \<Rightarrow> bool"

section \<open>Iterator state and registers\<close>

text \<open>
  The per-operation context is a C union; each operation kind uses its own member, so
  the members are separate fields. The iterator holds the register matrix and the
  column matrix as flat arrays (frame after frame), the per-operation contexts, the
  instruction pointer and the redo flag, and the public arrays \<open>ids\<close> and \<open>subjects\<close>
  of \<open>ecs_iter_t\<close>.\<close>

record ecs_rule_op_ctx_t =
  with_idr :: "nat option"
  with_table_index :: int
  each_row :: int
  setjmp_label :: int

record ecs_rule_iter_t =
  registers :: "ecs_rule_reg_t list"
  columns :: "int list"
  op_ctx :: "ecs_rule_op_ctx_t list"
  it_op :: int
  it_redo :: bool
  ids :: "ecs_id_t list"
  subjects :: "ecs_entity_t list"

definition term_count :: "ecs_rule_t \<Rightarrow> int" where
  "term_count rule = int (length (terms rule))"

definition operation_count :: "ecs_rule_t \<Rightarrow> int" where
  "operation_count rule = int (length (operations rule))"

text \<open>
  \<open>get_register_frame\<close> and \<open>rule_get_columns_frame\<close> return a pointer into the flat
  array; a register or column of a frame is addressed by its position in that array.
  (Every operation that reads the previous frame has a frame index of at least 1.)\<close>

definition reg_index :: "ecs_rule_t \<Rightarrow> int \<Rightarrow> int \<Rightarrow> nat" where
  "reg_index rule frame r = nat (frame * variable_count rule + r)"

definition col_index :: "ecs_rule_t \<Rightarrow> int \<Rightarrow> int \<Rightarrow> nat" where
  "col_index rule frame t = nat (frame * term_count rule + t)"

definition get_reg :: "ecs_rule_t \<Rightarrow> ecs_rule_iter_t \<Rightarrow> int \<Rightarrow> int \<Rightarrow> ecs_rule_reg_t" where
  "get_reg rule it frame r = registers it ! reg_index rule frame r"

definition set_reg ::
  "ecs_rule_t \<Rightarrow> ecs_rule_iter_t \<Rightarrow> int \<Rightarrow> int \<Rightarrow> ecs_rule_reg_t \<Rightarrow> ecs_rule_iter_t" where
  "set_reg rule it frame r reg = it\<lparr>registers := (registers it)[reg_index rule frame r := reg]\<rparr>"

definition var_kind :: "ecs_rule_t \<Rightarrow> int \<Rightarrow> ecs_rule_var_kind_t" where
  "var_kind rule r = v_kind (variables rule ! nat r)"

definition table_from_entity :: "ecs_world_t \<Rightarrow> ecs_entity_t \<Rightarrow> nat option" where
  "table_from_entity w e = (case eis_get w e of Some (table, row) \<Rightarrow> table | None \<Rightarrow> None)"

text \<open>\<open>entity_reg_set\<close>: the register is written only if the entity passes
  \<open>ecs_check(ecs_is_valid(...))\<close>; otherwise the function returns without writing.\<close>

definition entity_reg_set ::
  "ecs_world_t \<Rightarrow> ecs_rule_t \<Rightarrow> ecs_rule_iter_t \<Rightarrow> int \<Rightarrow> int \<Rightarrow> ecs_entity_t
     \<Rightarrow> ecs_rule_iter_t" where
  "entity_reg_set w rule it frame r entity =
     (if is_valid w entity
      then set_reg rule it frame r ((get_reg rule it frame r)\<lparr>r_entity := entity\<rparr>)
      else it)"

text \<open>\<open>entity_reg_get\<close>: a stored 0 reads as the wildcard; a stored entity that fails the
  validity check reads as 0.\<close>

definition entity_reg_get ::
  "ecs_world_t \<Rightarrow> ecs_builtin_t \<Rightarrow> ecs_rule_t \<Rightarrow> ecs_rule_iter_t \<Rightarrow> int \<Rightarrow> int
     \<Rightarrow> ecs_entity_t" where
  "entity_reg_get w b rule it frame r =
     (let e = r_entity (get_reg rule it frame r)
      in if e = 0 then EcsWildcard b
         else if is_valid w e then e
         else 0)"

definition table_reg_set ::
  "ecs_rule_t \<Rightarrow> ecs_rule_iter_t \<Rightarrow> int \<Rightarrow> int \<Rightarrow> nat option \<Rightarrow> ecs_rule_iter_t" where
  "table_reg_set rule it frame r table =
     set_reg rule it frame r \<lparr>r_table = table, r_offset = 0, r_count = 0, r_entity = 0\<rparr>"

definition table_reg_get :: "ecs_rule_t \<Rightarrow> ecs_rule_iter_t \<Rightarrow> int \<Rightarrow> int \<Rightarrow> nat option" where
  "table_reg_get rule it frame r = r_table (get_reg rule it frame r)"

text \<open>\<open>reg_get_entity\<close>. For a Table register the source asserts that the table is
  there and the offset inside it; the model answers 0 (no entity) where it is not.\<close>

definition reg_get_entity ::
  "ecs_world_t \<Rightarrow> ecs_builtin_t \<Rightarrow> ecs_rule_t \<Rightarrow> ecs_rule_op_t \<Rightarrow> ecs_rule_iter_t \<Rightarrow> int
     \<Rightarrow> int \<Rightarrow> ecs_entity_t" where
  "reg_get_entity w b rule op it frame r =
     (if r = UINT8_MAX
      then (if is_valid w (op_subject op) then op_subject op else 0)
      else if var_kind rule r = EcsRuleVarKindTable
      then (case table_reg_get rule it frame r of
              None \<Rightarrow> 0
            | Some table \<Rightarrow>
                (let offset = r_offset (get_reg rule it frame r);
                     entities = table_entities w table
                 in if 0 \<le> offset \<and> offset < int (length entities)
                       \<and> is_valid w (entities ! nat offset)
                    then entities ! nat offset
                    else 0))
      else if var_kind rule r = EcsRuleVarKindEntity
      then entity_reg_get w b rule it frame r
      else 0)"

definition reg_get_table ::
  "ecs_world_t \<Rightarrow> ecs_builtin_t \<Rightarrow> ecs_rule_t \<Rightarrow> ecs_rule_op_t \<Rightarrow> ecs_rule_iter_t \<Rightarrow> int
     \<Rightarrow> int \<Rightarrow> nat option" where
  "reg_get_table w b rule op it frame r =
     (if r = UINT8_MAX
      then (if is_valid w (op_subject op) then table_from_entity w (op_subject op) else None)
      else if var_kind rule r = EcsRuleVarKindTable
      then table_reg_get rule it frame r
      else if var_kind rule r = EcsRuleVarKindEntity
      then table_from_entity w (entity_reg_get w b rule it frame r)
      else None)"

section \<open>Creating an iterator\<close>

text \<open>
  \<open>ecs_rule_iter\<close>. The register and column matrices come from \<open>malloc\<close>: their
  initial content is arbitrary and is the parameter \<open>fresh_regs\<close> (\<open>fresh_cols\<close>), the
  content of each cell of the new block. The contexts come from \<open>calloc\<close>. Only the
  first frame is then initialised.\<close>

definition zero_ctx :: ecs_rule_op_ctx_t where
  "zero_ctx = \<lparr>with_idr = None, with_table_index = 0, each_row = 0, setjmp_label = 0\<rparr>"




section \<open>Filters\<close>

text \<open>\<open>pair_to_filter\<close>: the registers are read from the frame before the operation's.\<close>

definition pair_to_filter ::
  "ecs_world_t \<Rightarrow> ecs_builtin_t \<Rightarrow> ecs_rule_t \<Rightarrow> ecs_rule_iter_t \<Rightarrow> ecs_rule_op_t
     \<Rightarrow> ecs_rule_pair_t \<Rightarrow> ecs_rule_filter_t" where
  "pair_to_filter w b rule it op pair =
     (let frame = op_frame op - 1;
          result0 = \<lparr>f_mask = 0, f_wildcard = False, f_pred_wildcard = False,
                     f_obj_wildcard = False, f_same_var = False, f_hi_var = -1, f_lo_var = -1\<rparr>;
          obj_is_reg = (reg_mask pair AND RULE_PAIR_OBJECT \<noteq> 0);
          obj = (if obj_is_reg
                 then ecs_entity_t_lo (entity_reg_get w b rule it frame (obj_reg pair))
                 else obj_ent pair);
          result1 = (if obj_is_reg \<and> obj = EcsWildcard b
                     then result0\<lparr>f_wildcard := True, f_obj_wildcard := True,
                                  f_lo_var := obj_reg pair\<rparr>
                     else result0);
          pred_is_reg = (reg_mask pair AND RULE_PAIR_PREDICATE \<noteq> 0);
          pred = (if pred_is_reg
                  then ecs_entity_t_lo (entity_reg_get w b rule it frame (pred_reg pair))
                  else pred_ent pair);
          result2 = (if pred_is_reg \<and> pred = EcsWildcard b
                     then
                       (let ra = (if f_wildcard result1
                                  then result1\<lparr>f_same_var := (pred_reg pair = obj_reg pair)\<rparr>
                                  else result1);
                            rb = ra\<lparr>f_wildcard := True, f_pred_wildcard := True\<rparr>
                        in if obj \<noteq> 0 then rb\<lparr>f_hi_var := pred_reg pair\<rparr>
                           else rb\<lparr>f_lo_var := pred_reg pair\<rparr>)
                     else result1)
      in if obj = 0 \<and> \<not> obj_0 pair
         then result2\<lparr>f_mask := pred\<rparr>
         else result2\<lparr>f_mask := ecs_pair pred obj\<rparr>)"

text \<open>\<open>find_tables\<close>: the id record of an id, if it has at least one table.\<close>

definition find_tables :: "ecs_world_t \<Rightarrow> ecs_id_t \<Rightarrow> nat option" where
  "find_tables w id' =
     (case get_id_record w id' of
        None \<Rightarrow> None
      | Some idr \<Rightarrow> if length (id_record_tables w idr) = 0 then None else Some idr)"

fun same_var_loop :: "ecs_id_t list \<Rightarrow> int \<Rightarrow> int" where
  "same_var_loop [] i = -1"
| "same_var_loop (id' # rest) i =
     (if \<not> ECS_HAS_ROLE_PAIR id' then -1
      else if ECS_PAIR_RELATION id' = ECS_PAIR_OBJECT id' then i
      else same_var_loop rest (i + 1))"

definition find_next_same_var :: "ecs_id_t list \<Rightarrow> int \<Rightarrow> int" where
  "find_next_same_var type column = same_var_loop (drop (nat (column + 1)) type) (column + 1)"

definition find_next_column ::
  "ecs_world_t \<Rightarrow> nat \<Rightarrow> int \<Rightarrow> ecs_rule_filter_t \<Rightarrow> int" where
  "find_next_column w table column flt =
     (let pattern = f_mask flt;
          type = table_type w table
      in if column = -1
         then (case get_table_record w table pattern of
                 None \<Rightarrow> -1
               | Some c \<Rightarrow> if f_same_var flt then find_next_same_var type c else c)
         else
           (let c = column + 1
            in if int (length type) \<le> c then -1
               else if \<not> id_match w (type ! nat c) pattern then -1
               else if f_same_var flt then find_next_same_var type c
               else c))"

text \<open>\<open>reify_variables\<close>: write the parts of the matched id into the registers of the
  operation's own frame.\<close>

definition reify_variables ::
  "ecs_world_t \<Rightarrow> ecs_rule_t \<Rightarrow> ecs_rule_iter_t \<Rightarrow> ecs_rule_op_t \<Rightarrow> ecs_rule_filter_t
     \<Rightarrow> ecs_id_t list \<Rightarrow> int \<Rightarrow> ecs_rule_iter_t" where
  "reify_variables w rule it op flt type column =
     (let elem = type ! nat column;
          obj_var = f_lo_var flt;
          pred_var = f_hi_var flt;
          it1 = (if obj_var \<noteq> -1
                 then entity_reg_set w rule it (op_frame op) obj_var
                        (get_alive w (ECS_PAIR_OBJECT elem))
                 else it)
      in if pred_var \<noteq> -1
         then entity_reg_set w rule it1 (op_frame op) pred_var
                (get_alive w (ECS_PAIR_RELATION elem))
         else it1)"

text \<open>\<open>set_column\<close> and \<open>set_source\<close>; an empty type is the \<open>NULL\<close> type.\<close>

definition set_column ::
  "ecs_rule_iter_t \<Rightarrow> ecs_rule_op_t \<Rightarrow> ecs_id_t list \<Rightarrow> int \<Rightarrow> ecs_rule_iter_t" where
  "set_column it op type column =
     (if op_term op = -1 then it
      else if type \<noteq> [] then it\<lparr>ids := (ids it)[nat (op_term op) := type ! nat column]\<rparr>
      else it\<lparr>ids := (ids it)[nat (op_term op) := 0]\<rparr>)"

definition set_source ::
  "ecs_world_t \<Rightarrow> ecs_builtin_t \<Rightarrow> ecs_rule_t \<Rightarrow> ecs_rule_iter_t \<Rightarrow> ecs_rule_op_t \<Rightarrow> int
     \<Rightarrow> int \<Rightarrow> ecs_rule_iter_t" where
  "set_source w b rule it op frame r =
     (if op_term op = -1 then it
      else if r \<noteq> UINT8_MAX \<and> var_kind rule r = EcsRuleVarKindEntity
      then it\<lparr>subjects := (subjects it)[nat (op_term op) := reg_get_entity w b rule op it frame r]\<rparr>
      else it\<lparr>subjects := (subjects it)[nat (op_term op) := 0]\<rparr>)"

section \<open>The With operation\<close>

text \<open>
  The subject that the inclusive shortcut of \<open>eval_with\<close> compares: the literal subject,
  or the entity of an Entity register of the operation's frame; 0 for a Table
  register.\<close>

definition with_subject ::
  "ecs_world_t \<Rightarrow> ecs_builtin_t \<Rightarrow> ecs_rule_t \<Rightarrow> ecs_rule_iter_t \<Rightarrow> ecs_rule_op_t
     \<Rightarrow> ecs_entity_t" where
  "with_subject w b rule it op =
     (let r = r_in op
      in if r = UINT8_MAX then op_subject op
         else if var_kind rule r = EcsRuleVarKindEntity
         then entity_reg_get w b rule it (op_frame op) r
         else 0)"

text \<open>\<open>eval_with\<close>; the result is what the function returns and the iterator after it.\<close>

definition eval_with ::
  "ecs_world_t \<Rightarrow> ecs_builtin_t \<Rightarrow> ecs_rule_t \<Rightarrow> ecs_rule_iter_t \<Rightarrow> ecs_rule_op_t \<Rightarrow> int
     \<Rightarrow> bool \<Rightarrow> bool \<times> ecs_rule_iter_t" where
  "eval_with w b rule it op op_index redo =
     (let r = r_in op;
          pair = op_filter op;
          flt = pair_to_filter w b rule it op pair;
          col = col_index rule (op_frame op) (op_term op)
      in if redo \<and> \<not> f_wildcard flt then (False, it)
         else
           (let it1 = (if \<not> redo \<and> op_term op \<noteq> -1
                       then it\<lparr>columns := (columns it)[col := -1]\<rparr> else it)
            in if \<not> redo \<and> transitive pair \<and> inclusive pair
                  \<and> with_subject w b rule it1 op \<noteq> 0
                  \<and> \<not> f_obj_wildcard flt
                  \<and> with_subject w b rule it1 op = ecs_entity_t_lo (f_mask flt)
               then (True, it1\<lparr>ids := (ids it1)[nat (op_term op) := f_mask flt]\<rparr>)
               else
                 (let idr = (if redo then with_idr (op_ctx it1 ! nat op_index)
                             else find_tables w (f_mask flt));
                      it2 = (if redo then it1
                             else it1\<lparr>op_ctx := (op_ctx it1)
                                    [nat op_index := (op_ctx it1 ! nat op_index)\<lparr>with_idr := idr\<rparr>]\<rparr>)
                  in if idr = None then (False, it2)
                     else
                       (case reg_get_table w b rule op it2 (op_frame op) r of
                          None \<Rightarrow> (False, it2)
                        | Some table \<Rightarrow>
                            (let column = (if \<not> redo then find_next_column w table (-1) flt
                                           else find_next_column w table (columns it2 ! col) flt)
                             in if column = -1 then (False, it2)
                                else
                                  (let it3 = it2\<lparr>columns := (columns it2)[col := column]\<rparr>;
                                       it4 = (if f_wildcard flt
                                              then reify_variables w rule it3 op flt
                                                     (table_type w table) column
                                              else it3);
                                       it5 = (if \<not> obj_0 pair
                                              then set_column it4 op (table_type w table) column
                                              else it4)
                                   in (True, set_source w b rule it5 op (op_frame op) r)))))))"

section \<open>The interpreter loop\<close>

definition is_control_flow :: "ecs_rule_op_t \<Rightarrow> bool" where
  "is_control_flow op =
     (case op_kind op of
        EcsRuleSetJmp \<Rightarrow> True
      | EcsRuleJump \<Rightarrow> True
      | _ \<Rightarrow> False)"

text \<open>\<open>memcpy\<close> of \<open>n\<close> array cells, one after the other.\<close>

fun memcpy_n :: "'a list \<Rightarrow> nat \<Rightarrow> nat \<Rightarrow> nat \<Rightarrow> 'a list" where
  "memcpy_n xs dst src 0 = xs"
| "memcpy_n xs dst src (Suc n) = memcpy_n (xs[dst := xs ! src]) (Suc dst) (Suc src) n"

definition push_registers ::
  "ecs_rule_t \<Rightarrow> ecs_rule_iter_t \<Rightarrow> int \<Rightarrow> int \<Rightarrow> ecs_rule_iter_t" where
  "push_registers rule it cur next =
     (if variable_count rule = 0 then it
      else it\<lparr>registers := memcpy_n (registers it) (reg_index rule next 0) (reg_index rule cur 0)
                               (length (variables rule))\<rparr>)"

definition push_columns ::
  "ecs_rule_t \<Rightarrow> ecs_rule_iter_t \<Rightarrow> int \<Rightarrow> int \<Rightarrow> ecs_rule_iter_t" where
  "push_columns rule it cur next =
     (if term_count rule = 0 then it
      else it\<lparr>columns := memcpy_n (columns it) (col_index rule next 0) (col_index rule cur 0)
                             (length (terms rule))\<rparr>)"

text \<open>
  The first statement of the loop body of \<open>ecs_rule_next\<close>: push a new frame for the
  operation. \<open>last_frame\<close> is the local variable of \<open>ecs_rule_next\<close>, \<open>-1\<close> when the
  call starts.\<close>

definition push_frame_for ::
  "ecs_rule_t \<Rightarrow> ecs_rule_iter_t \<Rightarrow> ecs_rule_op_t \<Rightarrow> bool \<Rightarrow> int \<Rightarrow> ecs_rule_iter_t" where
  "push_frame_for rule it op redo last_frame =
     (let cur = op_frame op
      in if \<not> redo \<and> \<not> is_control_flow op \<and> cur \<noteq> 0 \<and> cur \<noteq> last_frame
         then (let prev = cur - 1
               in push_columns rule (push_registers rule it prev cur) prev cur)
         else it)"

text \<open>
  The do-while loop of \<open>ecs_rule_next\<close>. The dispatcher \<open>eval_op\<close> and
  \<open>populate_iterator\<close> are the parameters \<open>dispatch\<close> and \<open>publish\<close>. The fuel bounds the
  number of operations evaluated; \<open>None\<close> means it ran out. The result is the returned
  flag and the iterator; when the program is exhausted the iterator's arrays are
  freed.\<close>

type_synonym dispatch_t =
  "ecs_rule_iter_t \<Rightarrow> ecs_rule_op_t \<Rightarrow> int \<Rightarrow> bool \<Rightarrow> bool \<times> ecs_rule_iter_t"

definition ecs_rule_iter_free :: "ecs_rule_iter_t \<Rightarrow> ecs_rule_iter_t" where
  "ecs_rule_iter_free it = it\<lparr>registers := [], columns := [], op_ctx := []\<rparr>"

fun rule_next_loop ::
  "nat \<Rightarrow> dispatch_t \<Rightarrow> (ecs_rule_iter_t \<Rightarrow> ecs_rule_op_t \<Rightarrow> ecs_rule_iter_t) \<Rightarrow> ecs_rule_t
     \<Rightarrow> ecs_rule_iter_t \<Rightarrow> bool \<Rightarrow> int \<Rightarrow> (bool \<times> ecs_rule_iter_t) option" where
  "rule_next_loop 0 dispatch publish rule it redo last_frame = None"
| "rule_next_loop (Suc fuel) dispatch publish rule it redo last_frame =
     (let op_index = it_op it;
          op = operations rule ! nat op_index;
          it1 = push_frame_for rule it op redo last_frame;
          (result, it2) = dispatch it1 op op_index redo;
          it3 = it2\<lparr>it_op := (if result then on_pass op else on_fail op)\<rparr>
      in if op_kind op = EcsRuleYield
         then Some (True, (publish it3 op)\<lparr>it_redo := True\<rparr>)
         else
           (let it4 = (if op_kind op = EcsRuleJump
                       then it3\<lparr>it_op := setjmp_label (op_ctx it3 ! nat (on_pass op))\<rparr>
                       else it3);
                redo' = (it_op it4 \<le> op_index);
                last_frame' = (if \<not> is_control_flow op then op_frame op else last_frame)
            in if it_op it4 \<noteq> -1
               then rule_next_loop fuel dispatch publish rule it4 redo' last_frame'
               else Some (False, ecs_rule_iter_free it4)))"

section \<open>Example inputs\<close>

text \<open>
  Small inputs for the closed theorems below: builtin ids (any two distinct non-zero
  ids will do), term identifiers as the parser leaves them, and terms.\<close>

definition example_builtin :: ecs_builtin_t where
  "example_builtin = \<lparr>EcsThis = 0x10B, EcsWildcard = 0x10A\<rparr>"

definition literal_id :: "ecs_entity_t \<Rightarrow> ecs_term_id_t" where
  "literal_id e =
     \<lparr>ti_entity = e, ti_name = [], ti_var = EcsVarIsEntity, ti_nothing = False, ti_is_set = True\<rparr>"

definition variable_id :: "string \<Rightarrow> ecs_term_id_t" where
  "variable_id n =
     \<lparr>ti_entity = 0, ti_name = n, ti_var = EcsVarIsVariable, ti_nothing = False, ti_is_set = True\<rparr>"

definition this_id :: ecs_term_id_t where
  "this_id =
     \<lparr>ti_entity = 0x10B, ti_name = ''This'', ti_var = EcsVarIsVariable, ti_nothing = False,
      ti_is_set = True\<rparr>"

definition unset_id :: ecs_term_id_t where
  "unset_id =
     \<lparr>ti_entity = 0, ti_name = [], ti_var = EcsVarDefault, ti_nothing = False, ti_is_set = False\<rparr>"

definition example_term ::
  "ecs_term_id_t \<Rightarrow> ecs_term_id_t \<Rightarrow> ecs_term_id_t \<Rightarrow> ecs_oper_kind_t \<Rightarrow> ecs_term_t" where
  "example_term p s ob op = \<lparr>t_pred = p, t_subj = s, t_obj = ob, t_oper = op, t_role_pair = False\<rparr>"

definition new_rule :: "ecs_term_t list \<Rightarrow> ecs_rule_t" where
  "new_rule ts = \<lparr>terms = ts, variables = [], subject_variable_count = 0,
        operations = [], frame_count = 0\<rparr>"

text \<open>
  A small store: entity \<open>0x200\<close> lives in table 0, whose type is the tag \<open>0x400\<close>;
  entity \<open>0x201\<close> lives in table 1, whose type is the pair of relation \<open>0x300\<close> and
  object \<open>0x200\<close>. Every non-zero id is valid and alive.\<close>

definition example_world :: ecs_world_t where
  "example_world =
     \<lparr>is_valid = (\<lambda>e. e \<noteq> 0),
      get_alive = (\<lambda>e. e),
      eis_get = (\<lambda>e. if e = 0x200 then Some (Some 0, 0)
                      else if e = 0x201 then Some (Some 1, 0) else None),
      get_id_record = (\<lambda>i. if i = ecs_pair 0x300 0x200 then Some 0 else None),
      id_record_tables = (\<lambda>idr. [\<lparr>tr_table = 1, tr_column = 0\<rparr>]),
      get_table_record = (\<lambda>t i. if t = 1 \<and> i = ecs_pair 0x300 0x200 then Some 0 else None),
      table_type = (\<lambda>t. if t = 0 then [0x400] else [ecs_pair 0x300 0x200]),
      table_entities = (\<lambda>t. if t = 0 then [0x200] else [0x201]),
      id_match = (\<lambda>i pattern. i = pattern)\<rparr>"

text \<open>The pair of a transitive, inclusive, final relation \<open>0x300\<close> whose object is
  register 1, and an operation of a given kind and frame that carries it.\<close>

definition example_pair :: ecs_rule_pair_t where
  "example_pair =
     \<lparr>pred_reg = 0, pred_ent = 0x300, obj_reg = 1, obj_ent = 0, reg_mask = 2,
      transitive = True, final = True, inclusive = True, obj_0 = False\<rparr>"

definition example_op :: "ecs_rule_op_kind_t \<Rightarrow> int \<Rightarrow> ecs_rule_op_t" where
  "example_op k frame =
     \<lparr>op_kind = k, op_filter = example_pair, op_subject = 0, on_pass = frame + 1,
      on_fail = frame - 1, op_frame = frame, op_term = 0, r_in = 0, r_out = 0,
      has_in = True, has_out = False\<rparr>"

text \<open>A With operation in frame 1 with input register \<open>r\<close> (\<open>UINT8_MAX\<close>: none) and
  literal subject \<open>e\<close>.\<close>

definition example_with :: "int \<Rightarrow> ecs_entity_t \<Rightarrow> ecs_rule_op_t" where
  "example_with r e = (example_op EcsRuleWith 1)\<lparr>r_in := r, op_subject := e\<rparr>"

text \<open>
  A rule with one term, a Table variable (register 0) and an Entity variable
  (register 1), and three operations. In \<open>example_iter\<close> frame 1 is the copy of
  frame 0 that the interpreter makes before it evaluates the operation of frame 1: the
  Table register holds the one-entity slice of table 0 and the Entity register holds
  \<open>0x200\<close>; frame 2 holds arbitrary values. In \<open>example_frames\<close> the three frames
  differ from each other.\<close>

definition example_program :: ecs_rule_t where
  "example_program =
     \<lparr>terms = [example_term (literal_id 0x300) this_id (variable_id ''X'') EcsAnd],
      variables = [\<lparr>v_kind = EcsRuleVarKindTable, v_name = ''.'', v_id = 0, v_occurs = 1,
                    v_depth = 0, v_marked = True\<rparr>,
                   \<lparr>v_kind = EcsRuleVarKindEntity, v_name = ''X'', v_id = 1, v_occurs = 0,
                    v_depth = 255, v_marked = False\<rparr>],
      subject_variable_count = 1,
      operations = [example_op EcsRuleInput 0, example_with 0 0, example_op EcsRuleYield 2],
      frame_count = 3\<rparr>"

definition example_reg :: "nat option \<Rightarrow> int \<Rightarrow> ecs_entity_t \<Rightarrow> ecs_rule_reg_t" where
  "example_reg t n e = \<lparr>r_table = t, r_offset = 0, r_count = n, r_entity = e\<rparr>"

definition example_iter :: ecs_rule_iter_t where
  "example_iter =
     \<lparr>registers = [example_reg (Some 0) 1 0, example_reg None 0 0x200,
                   example_reg (Some 0) 1 0, example_reg None 0 0x200,
                   example_reg (Some 7) 5 9, example_reg (Some 7) 5 9],
      columns = [-1, -1, 6],
      op_ctx = [zero_ctx, zero_ctx, zero_ctx],
      it_op = 1, it_redo = False, ids = [0], subjects = [0]\<rparr>"

definition example_frames :: ecs_rule_iter_t where
  "example_frames =
     \<lparr>registers = [example_reg None 0 0, example_reg None 0 0x200,
                   example_reg (Some 0) 1 0, example_reg None 0 0x201,
                   example_reg (Some 7) 5 9, example_reg (Some 7) 5 9],
      columns = [-1, 4, 6],
      op_ctx = [zero_ctx, zero_ctx, zero_ctx],
      it_op = 1, it_redo = False, ids = [0], subjects = [0]\<rparr>"

lemmas example_defs =
  example_builtin_def literal_id_def variable_id_def this_id_def unset_id_def example_term_def
  new_rule_def

lemmas example_vm_defs =
  example_world_def example_pair_def example_op_def example_with_def example_program_def
  example_reg_def example_iter_def example_frames_def zero_ctx_def

lemmas vm_defs =
  eval_with_def pair_to_filter_def with_subject_def entity_reg_get_def entity_reg_set_def
  table_reg_get_def table_reg_set_def reg_get_entity_def reg_get_table_def get_reg_def
  set_reg_def reg_index_def col_index_def var_kind_def variable_count_def term_count_def
  table_from_entity_def find_tables_def find_next_column_def find_next_same_var_def
  reify_variables_def set_column_def set_source_def UINT8_MAX_def RULE_PAIR_OBJECT_def
  RULE_PAIR_PREDICATE_def ecs_pair_def ecs_entity_t_comb_def ecs_entity_t_lo_def ECS_PAIR_def
  push_frame_for_def push_registers_def push_columns_def is_control_flow_def Let_def

lemmas scan_defs =
  scan_variables_def Let_def term_id_is_variable_def term_id_var_name_def find_variable_def
  get_var_name_def create_variable_def ensure_variable_def ensure_named_def set_occurs_def
  set_depth_def set_marked_def variable_count_def ensure_all_variables_def skip_term_def
  UINT8_MAX_def ECS_RULE_MAX_VARIABLE_COUNT_def term_pred_def term_subj_def term_obj_def
  term_id_to_var_def obj_is_set_def is_subject_def get_depth_from_term_def
  get_depth_from_var_def crawl_variable_def crawl_call_def

section \<open>Properties\<close>

subsection \<open>The public variable lookup\<close>

lemma find_variable_loop_None:
  "(find_variable_loop vs kind name i = None) =
     (\<forall>v \<in> set vs. \<not> (v_name v = name \<and> (kind = EcsRuleVarKindUnknown \<or> v_kind v = kind)))"
  by (induction vs arbitrary: i) auto

lemma find_variable_loop_Some:
  "find_variable_loop vs kind name i = Some j \<Longrightarrow>
     i \<le> j \<and> j - i < length vs
     \<and> List.find (\<lambda>v. v_name v = name \<and> (kind = EcsRuleVarKindUnknown \<or> v_kind v = kind)) vs
         = Some (vs ! (j - i))"
proof (induction vs arbitrary: i)
  case Nil
  then show ?case by simp
next
  case (Cons v vs)
  show ?case
  proof (cases "v_name v = name \<and> (kind = EcsRuleVarKindUnknown \<or> v_kind v = kind)")
    case True
    with Cons.prems show ?thesis by auto
  next
    case False
    with Cons.prems have step: "find_variable_loop vs kind name (Suc i) = Some j" by auto
    from Cons.IH [OF step] have le: "Suc i \<le> j" and lt: "j - Suc i < length vs"
      and f: "List.find (\<lambda>v. v_name v = name \<and> (kind = EcsRuleVarKindUnknown \<or> v_kind v = kind)) vs
                = Some (vs ! (j - Suc i))"
      by auto
    from le have "j - i = Suc (j - Suc i)" by arith
    then have nth: "(v # vs) ! (j - i) = vs ! (j - Suc i)" by simp
    from le have c1: "i \<le> j" by arith
    from le lt have c2: "j - i < length (v # vs)" by simp
    from False f nth have c3:
      "List.find (\<lambda>v. v_name v = name \<and> (kind = EcsRuleVarKindUnknown \<or> v_kind v = kind)) (v # vs)
         = Some ((v # vs) ! (j - i))"
      by auto
    from c1 c2 c3 show ?thesis by blast
  qed
qed

text \<open>
  C10. \<open>ecs_rule_find_var\<close> resolves only Entity-kind vars: it returns the id of the
  (first) Entity-kind variable carrying the looked-up name, where the name \<open>This\<close>
  stands for \<open>.\<close> as everywhere in the variable table, and \<open>-1\<close> when the rule has no
  Entity-kind variable of that name, whatever Table-kind vars of that name
  exist.\<close>

theorem ecs_rule_find_var_entity_only:
  "(\<forall>v. List.find (\<lambda>v. v_name v = get_var_name name \<and> v_kind v = EcsRuleVarKindEntity) vars
          = Some v \<longrightarrow> ecs_rule_find_var vars name = v_id v)
   \<and> ((\<forall>v \<in> set vars. v_name v = get_var_name name \<longrightarrow> v_kind v \<noteq> EcsRuleVarKindEntity)
        \<longrightarrow> ecs_rule_find_var vars name = -1)"
proof (intro conjI allI impI)
  fix v
  assume found: "List.find (\<lambda>v. v_name v = get_var_name name \<and> v_kind v = EcsRuleVarKindEntity)
                   vars = Some v"
  have same: "(\<lambda>v. v_name v = get_var_name name
                  \<and> (EcsRuleVarKindEntity = EcsRuleVarKindUnknown \<or> v_kind v = EcsRuleVarKindEntity))
              = (\<lambda>v. v_name v = get_var_name name \<and> v_kind v = EcsRuleVarKindEntity)"
    by auto
  from found have "v \<in> set vars" and "v_name v = get_var_name name"
    and "v_kind v = EcsRuleVarKindEntity"
    by (auto simp: find_Some_iff)
  then have "find_variable_loop vars EcsRuleVarKindEntity (get_var_name name) 0 \<noteq> None"
    unfolding find_variable_loop_None by blast
  then obtain j where j: "find_variable_loop vars EcsRuleVarKindEntity (get_var_name name) 0 = Some j"
    by blast
  from find_variable_loop_Some [OF j] found have "vars ! j = v"
    by (simp add: same)
  with j show "ecs_rule_find_var vars name = v_id v"
    by (simp add: ecs_rule_find_var_def find_variable_def)
next
  assume "\<forall>v \<in> set vars. v_name v = get_var_name name \<longrightarrow> v_kind v \<noteq> EcsRuleVarKindEntity"
  then have "find_variable_loop vars EcsRuleVarKindEntity (get_var_name name) 0 = None"
    unfolding find_variable_loop_None by auto
  then show "ecs_rule_find_var vars name = -1"
    by (simp add: ecs_rule_find_var_def find_variable_def)
qed

theorem ecs_rule_find_var_entity_only_witness:
  "ecs_rule_find_var
     [\<lparr>v_kind = EcsRuleVarKindTable, v_name = ''X'', v_id = 0, v_occurs = 1, v_depth = 0, v_marked = True\<rparr>,
      \<lparr>v_kind = EcsRuleVarKindEntity, v_name = ''X'', v_id = 1, v_occurs = 0, v_depth = 255, v_marked = False\<rparr>]
     ''X'' = 1
   \<and> ecs_rule_find_var
     [\<lparr>v_kind = EcsRuleVarKindTable, v_name = ''.'', v_id = 0, v_occurs = 1, v_depth = 0, v_marked = True\<rparr>]
     ''This'' = -1"
  using ecs_rule_find_var_entity_only
    [of "''X''"
        "[\<lparr>v_kind = EcsRuleVarKindTable, v_name = ''X'', v_id = 0, v_occurs = 1, v_depth = 0, v_marked = True\<rparr>,
          \<lparr>v_kind = EcsRuleVarKindEntity, v_name = ''X'', v_id = 1, v_occurs = 0, v_depth = 255, v_marked = False\<rparr>]"]
    ecs_rule_find_var_entity_only
    [of "''This''"
        "[\<lparr>v_kind = EcsRuleVarKindTable, v_name = ''.'', v_id = 0, v_occurs = 1, v_depth = 0, v_marked = True\<rparr>]"]
  by (simp add: get_var_name_def)

subsection \<open>The comparator of the variable sort\<close>

text \<open>
  C4. The claim is that the comparator decides every pair by kind, depth, occurrence
  and finally id (descending). Two Table variables of equal depth and occurrence count,
  with ids 0 and 1: the four-key order puts id 1 first, the comparator answers \<open>-1\<close>
  ("first argument first") whichever way round it is asked.\<close>

theorem compare_variable_ignores_id:
  "compare_variable
     \<lparr>v_kind = EcsRuleVarKindTable, v_name = ''X'', v_id = 0, v_occurs = 1, v_depth = 0, v_marked = True\<rparr>
     \<lparr>v_kind = EcsRuleVarKindTable, v_name = ''Y'', v_id = 1, v_occurs = 1, v_depth = 0, v_marked = True\<rparr>
     = -1
   \<and> compare_variable
     \<lparr>v_kind = EcsRuleVarKindTable, v_name = ''Y'', v_id = 1, v_occurs = 1, v_depth = 0, v_marked = True\<rparr>
     \<lparr>v_kind = EcsRuleVarKindTable, v_name = ''X'', v_id = 0, v_occurs = 1, v_depth = 0, v_marked = True\<rparr>
     = -1
   \<and> spec_four_key_compare
     \<lparr>v_kind = EcsRuleVarKindTable, v_name = ''X'', v_id = 0, v_occurs = 1, v_depth = 0, v_marked = True\<rparr>
     \<lparr>v_kind = EcsRuleVarKindTable, v_name = ''Y'', v_id = 1, v_occurs = 1, v_depth = 0, v_marked = True\<rparr>
     = 1"
  by (simp add: compare_variable_def spec_four_key_compare_def)

subsection \<open>Errors of the variable scan\<close>

lemma find_roots_loop_no_error:
  "find_roots_loop b ts 0 rule mo mov \<noteq> Inl e"
  by (induction ts arbitrary: rule mo mov)
     (auto simp: ECS_RULE_MAX_VARIABLE_COUNT_def Let_def
           split: option.splits sum.splits prod.splits)

lemma check_not_loop_errors:
  "check_not_loop b rule ts = Some e \<Longrightarrow>
     (\<exists>n. e = MissingPredicateVariable n) \<or> (\<exists>n. e = MissingObjectVariable n)"
  by (induction ts) (auto simp: Let_def split: if_splits)

lemma scan_variables_errors:
  assumes "scan_variables qsort b fuel rule = Some (Inl e)"
  shows "(\<exists>n. e = UnconstrainedVariable n) \<or> (\<exists>n. e = MissingPredicateVariable n)
         \<or> (\<exists>n. e = MissingObjectVariable n)"
  using assms find_roots_loop_no_error [of b "terms rule" rule 0 UINT8_MAX]
  unfolding scan_variables_def
  by (auto simp: Let_def split: sum.splits prod.splits option.splits if_splits
           dest: check_not_loop_errors)

text \<open>
  C3. The claim is that a rule with more than 256 distinct variables is rejected with
  "too many variables in rule". The test that raises it reads \<open>subject_count\<close>, which
  stays 0: neither the variable scan nor \<open>ecs_rule_init\<close> ends with this error, for any
  term list, whatever the number of its variables (so also not for the 257 terms
  \<open>R(V, W1)\<close>, ..., \<open>R(V, W257)\<close>, which declare 258 names).\<close>

theorem ecs_rule_init_never_too_many:
  "scan_variables qsort b fuel rule \<noteq> Some (Inl TooManyVariables)
   \<and> ecs_rule_init qsort emit b fuel parsed \<noteq> Some (Inl TooManyVariables)"
proof -
  have s: "scan_variables qsort b fuel r \<noteq> Some (Inl TooManyVariables)" for r
    using scan_variables_errors [of qsort b fuel r TooManyVariables] by auto
  have "ecs_rule_init qsort emit b fuel parsed \<noteq> Some (Inl TooManyVariables)"
    using s by (auto simp: ecs_rule_init_def split: option.splits sum.splits)
  with s show ?thesis by simp
qed

lemma get_variable_depth_2:
  "get_variable_depth 2 b = get_variable_depth (Suc (Suc 0)) b"
  by (simp add: numeral_2_eq_2)

text \<open>
  C2. The claim is that \<open>.\<close> is elected root (depth 0) whenever it occurs as a subject.
  In the rule \<open>Foo(X), Bar(X), Likes(., X)\<close> the subject \<open>X\<close> occurs twice and \<open>.\<close>
  once: the scan succeeds, \<open>X\<close> is the root with depth 0, and \<open>.\<close> gets depth 1.
  (The list shown is the variable array handed to the sort.)\<close>

theorem scan_variables_this_not_root:
  "scan_variables qsort example_builtin 2
     (new_rule
        [example_term (literal_id 1) (variable_id ''X'') unset_id EcsAnd,
         example_term (literal_id 2) (variable_id ''X'') unset_id EcsAnd,
         example_term (literal_id 3) this_id (variable_id ''X'') EcsAnd])
   = Some (Inr
       \<lparr>terms =
          [example_term (literal_id 1) (variable_id ''X'') unset_id EcsAnd,
           example_term (literal_id 2) (variable_id ''X'') unset_id EcsAnd,
           example_term (literal_id 3) this_id (variable_id ''X'') EcsAnd],
        variables = renumber (qsort compare_variable
          [\<lparr>v_kind = EcsRuleVarKindTable, v_name = ''X'', v_id = 0, v_occurs = 2, v_depth = 0,
            v_marked = True\<rparr>,
           \<lparr>v_kind = EcsRuleVarKindTable, v_name = ''.'', v_id = 1, v_occurs = 1, v_depth = 1,
            v_marked = True\<rparr>,
           \<lparr>v_kind = EcsRuleVarKindEntity, v_name = ''X'', v_id = 2, v_occurs = 0,
            v_depth = 255, v_marked = False\<rparr>]) 0,
        subject_variable_count = 2,
        operations = [], frame_count = 0\<rparr>)"
  by (simp add: scan_defs example_defs get_variable_depth_2)

text \<open>
  C6. The claim is that a Not term whose variable no other term introduces makes rule
  construction fail. Two rules whose Not term is the only term that mentions \<open>X\<close>, both
  accepted by the variable scan, so that \<open>ecs_rule_init\<close> goes on to emit the program:
  \<open>!TagB(X), TagA(e)\<close>, where \<open>X\<close> is the subject of the Not term and becomes the root;
  and \<open>TagA(e), !TagB(f, X)\<close>, which has no variable subject, so that the scan returns
  before it looks at the Not terms (its variable array stays empty).\<close>

theorem ecs_rule_init_not_term_fresh_variable:
  "ecs_rule_init qsort emit example_builtin 1
     (Some [example_term (literal_id 2) (variable_id ''X'') unset_id EcsNot,
            example_term (literal_id 1) (literal_id 10) unset_id EcsAnd])
   = Some (Inr (emit
       \<lparr>terms =
          [example_term (literal_id 2) (variable_id ''X'') unset_id EcsNot,
           example_term (literal_id 1) (literal_id 10) unset_id EcsAnd],
        variables = renumber (qsort compare_variable
          [\<lparr>v_kind = EcsRuleVarKindTable, v_name = ''X'', v_id = 0, v_occurs = 1, v_depth = 0,
            v_marked = True\<rparr>]) 0,
        subject_variable_count = 1,
        operations = [], frame_count = 0\<rparr>))
   \<and> ecs_rule_init qsort emit example_builtin 1
     (Some [example_term (literal_id 1) (literal_id 10) unset_id EcsAnd,
            example_term (literal_id 2) (literal_id 11) (variable_id ''X'') EcsNot])
   = Some (Inr (emit
       \<lparr>terms =
          [example_term (literal_id 1) (literal_id 10) unset_id EcsAnd,
           example_term (literal_id 2) (literal_id 11) (variable_id ''X'') EcsNot],
        variables = [],
        subject_variable_count = 0,
        operations = [], frame_count = 0\<rparr>))"
  by (simp add: ecs_rule_init_def scan_defs example_defs)

subsection \<open>Degenerate rules\<close>

lemma first_non_not_all:
  "(first_non_not ts i = i + length ts) = (\<forall>t \<in> set ts. t_oper t = EcsNot)"
proof (induction ts arbitrary: i)
  case Nil show ?case by simp
next
  case (Cons t ts)
  show ?case using Cons.IH [of "Suc i"] by (cases "t_oper t \<noteq> EcsNot") auto
qed

text \<open>
  C7. For a parsed filter \<open>ts\<close>, \<open>ecs_rule_init\<close> reports "rule has no terms" exactly
  when \<open>ts\<close> is empty, and "rule cannot only have terms with Not operator" exactly when
  \<open>ts\<close> is not empty and every term has the Not operator; in both shapes it returns no
  rule object.\<close>

theorem ecs_rule_init_degenerate:
  "(ecs_rule_init qsort emit b fuel (Some ts) = Some (Inl RuleHasNoTerms)) = (ts = [])
   \<and> (ecs_rule_init qsort emit b fuel (Some ts) = Some (Inl RuleOnlyNotTerms))
       = (ts \<noteq> [] \<and> (\<forall>t \<in> set ts. t_oper t = EcsNot))
   \<and> (ts = [] \<or> (\<forall>t \<in> set ts. t_oper t = EcsNot)
        \<longrightarrow> (\<forall>r. ecs_rule_init qsort emit b fuel (Some ts) \<noteq> Some (Inr r)))"
proof -
  let ?scan = "scan_variables qsort b fuel \<lparr>terms = ts, variables = [], subject_variable_count = 0,
        operations = [], frame_count = 0\<rparr>"
  have all: "(first_non_not ts 0 = length ts) = (\<forall>t \<in> set ts. t_oper t = EcsNot)"
    using first_non_not_all [of ts 0] by simp
  have scan: "?scan \<noteq> Some (Inl RuleHasNoTerms)" "?scan \<noteq> Some (Inl RuleOnlyNotTerms)"
    using scan_variables_errors [of qsort b fuel _ RuleHasNoTerms]
          scan_variables_errors [of qsort b fuel _ RuleOnlyNotTerms] by auto
  show ?thesis
    using all scan
    by (auto simp: ecs_rule_init_def split: option.splits sum.splits)
qed

theorem ecs_rule_init_degenerate_witness:
  "ecs_rule_init (\<lambda>cmp vs. vs) (\<lambda>rule. rule) example_builtin 1 (Some [])
     = Some (Inl RuleHasNoTerms)
   \<and> ecs_rule_init (\<lambda>cmp vs. vs) (\<lambda>rule. rule) example_builtin 1
       (Some [example_term (literal_id 1) this_id unset_id EcsNot])
     = Some (Inl RuleOnlyNotTerms)
   \<and> ecs_rule_init (\<lambda>cmp vs. vs) (\<lambda>rule. rule) example_builtin 1
       (Some [example_term (literal_id 1) this_id unset_id EcsAnd])
     \<noteq> Some (Inl RuleOnlyNotTerms)"
  using ecs_rule_init_degenerate
          [of "\<lambda>cmp vs. vs" "\<lambda>rule. rule" example_builtin 1 "[]"]
        ecs_rule_init_degenerate
          [of "\<lambda>cmp vs. vs" "\<lambda>rule. rule" example_builtin 1
              "[example_term (literal_id 1) this_id unset_id EcsNot]"]
        ecs_rule_init_degenerate
          [of "\<lambda>cmp vs. vs" "\<lambda>rule. rule" example_builtin 1
              "[example_term (literal_id 1) this_id unset_id EcsAnd]"]
  by (simp add: example_term_def)

subsection \<open>Pushing a register frame\<close>










subsection \<open>Unbound registers\<close>





lemma lo_take_bit: "ecs_entity_t_lo x = take_bit 32 x"
proof -
  have "(0xFFFFFFFF :: 64 word) = mask 32" by (simp add: mask_eq_exp_minus_1)
  then show ?thesis by (simp add: ecs_entity_t_lo_def take_bit_eq_mask)
qed



subsection \<open>The inclusive shortcut of the With operation\<close>

lemma ecs_pair_lo: "ecs_entity_t_lo (ecs_pair p x) = ecs_entity_t_lo x"
proof -
  have a: "take_bit 32 ECS_PAIR = (0 :: 64 word)"
    by (simp add: ECS_PAIR_def)
  have disj: "push_bit 32 p AND take_bit 32 x = (0 :: 64 word)"
    by (rule bit_eqI) (auto simp: bit_simps)
  have b: "take_bit 32 (push_bit 32 p + take_bit 32 x) = take_bit 32 (x :: 64 word)"
    unfolding disjunctive_add_eq_or [OF disj]
    by (rule bit_eqI) (auto simp: bit_simps)
  have "ecs_entity_t_lo (ecs_pair p x) = take_bit 32 (ECS_PAIR OR (push_bit 32 p + take_bit 32 x))"
    by (simp only: lo_take_bit ecs_pair_def ecs_entity_t_comb_def lo_take_bit [unfolded ecs_entity_t_lo_def])
  also have "\<dots> = take_bit 32 ECS_PAIR OR take_bit 32 (push_bit 32 p + take_bit 32 x)"
    by (rule take_bit_or)
  also have "\<dots> = take_bit 32 x" by (simp only: a b) simp
  finally show ?thesis by (simp add: lo_take_bit)
qed


lemma pair_to_filter_bound_object:
  assumes obj: "(reg_mask pair AND RULE_PAIR_OBJECT = 0 \<and> obj_ent pair = x)
      \<or> (reg_mask pair AND RULE_PAIR_OBJECT \<noteq> 0
          \<and> r_entity (get_reg rule it (op_frame op - 1) (obj_reg pair)) = x \<and> is_valid w x)"
    and x: "x \<noteq> 0" "x \<noteq> EcsWildcard b" "ecs_entity_t_lo x = x"
  shows "\<not> f_obj_wildcard (pair_to_filter w b rule it op pair)
         \<and> ecs_entity_t_lo (f_mask (pair_to_filter w b rule it op pair)) = x"
proof -
  define o' where "o' = (if reg_mask pair AND RULE_PAIR_OBJECT \<noteq> 0
                 then ecs_entity_t_lo (entity_reg_get w b rule it (op_frame op - 1) (obj_reg pair))
                 else obj_ent pair)"
  have o: "o' = x"
    using obj x by (auto simp: o'_def entity_reg_get_def Let_def)
  show ?thesis
    unfolding pair_to_filter_def Let_def o'_def [symmetric] o
    using x by (simp add: ecs_pair_lo)
qed

text \<open>
  C1, as amended. A With operation on a transitive and inclusive pair, evaluated with
  \<open>redo = false\<close>, passes and reports the filter mask as the term's id whenever its
  subject is a literal entity or the entity held by an Entity register, its object is a
  literal or a bound register, and subject and object are the same generation-free id
  \<open>x\<close> (not 0, not the wildcard).\<close>

theorem eval_with_inclusive_same_subject_object:
  "\<not> redo \<and> transitive (op_filter op) \<and> inclusive (op_filter op)
   \<and> ((r_in op = UINT8_MAX \<and> op_subject op = x)
      \<or> (r_in op \<noteq> UINT8_MAX \<and> var_kind rule (r_in op) = EcsRuleVarKindEntity
          \<and> r_entity (get_reg rule it (op_frame op) (r_in op)) = x \<and> is_valid w x))
   \<and> ((reg_mask (op_filter op) AND RULE_PAIR_OBJECT = 0 \<and> obj_ent (op_filter op) = x)
      \<or> (reg_mask (op_filter op) AND RULE_PAIR_OBJECT \<noteq> 0
          \<and> r_entity (get_reg rule it (op_frame op - 1) (obj_reg (op_filter op))) = x
          \<and> is_valid w x))
   \<and> x \<noteq> 0 \<and> x \<noteq> EcsWildcard b \<and> ecs_entity_t_lo x = x
   \<longrightarrow> fst (eval_with w b rule it op op_index redo)
     \<and> ids (snd (eval_with w b rule it op op_index redo))
         = (ids it)[nat (op_term op) := f_mask (pair_to_filter w b rule it op (op_filter op))]
     \<and> ecs_entity_t_lo (f_mask (pair_to_filter w b rule it op (op_filter op))) = x"
proof (intro impI, elim conjE)
  assume redo: "\<not> redo" and tr: "transitive (op_filter op)" and inc: "inclusive (op_filter op)"
    and subj: "(r_in op = UINT8_MAX \<and> op_subject op = x)
      \<or> (r_in op \<noteq> UINT8_MAX \<and> var_kind rule (r_in op) = EcsRuleVarKindEntity
          \<and> r_entity (get_reg rule it (op_frame op) (r_in op)) = x \<and> is_valid w x)"
    and obj: "(reg_mask (op_filter op) AND RULE_PAIR_OBJECT = 0 \<and> obj_ent (op_filter op) = x)
      \<or> (reg_mask (op_filter op) AND RULE_PAIR_OBJECT \<noteq> 0
          \<and> r_entity (get_reg rule it (op_frame op - 1) (obj_reg (op_filter op))) = x
          \<and> is_valid w x)"
    and x: "x \<noteq> 0" "x \<noteq> EcsWildcard b" "ecs_entity_t_lo x = x"
  let ?flt = "pair_to_filter w b rule it op (op_filter op)"
  note F = pair_to_filter_bound_object [OF obj x]
  have S: "with_subject w b rule (it\<lparr>columns := cs\<rparr>) op = x" for cs
    using subj x by (auto simp: with_subject_def Let_def entity_reg_get_def get_reg_def)
  have S0: "with_subject w b rule it op = x"
    using S [of "columns it"] by simp
  show "fst (eval_with w b rule it op op_index redo)
     \<and> ids (snd (eval_with w b rule it op op_index redo))
         = (ids it)[nat (op_term op) := f_mask ?flt]
     \<and> ecs_entity_t_lo (f_mask ?flt) = x"
    using redo tr inc F x S S0
    by (simp add: eval_with_def Let_def)
qed

theorem eval_with_inclusive_same_subject_object_witness:
  "fst (eval_with example_world example_builtin example_program example_iter
          (example_with 255 0x200) 1 False)
   \<and> ids (snd (eval_with example_world example_builtin example_program example_iter
          (example_with 255 0x200) 1 False)) = [ecs_pair 0x300 0x200]"
  using eval_with_inclusive_same_subject_object
          [where redo = False and op = "example_with 255 0x200" and x = "0x200"
             and rule = example_program and it = example_iter and w = example_world
             and b = example_builtin and op_index = 1]
  by (simp add: vm_defs example_vm_defs example_defs)

text \<open>
  C1 as stated says that With passes whenever the resolved subject entity equals the
  resolved object entity, for every kind of subject. Here the subject is a Table register
  that holds the one-entity slice of table 0, so the subject entity is \<open>0x200\<close>; the
  object register holds \<open>0x200\<close>; the store holds the relation for another entity only.
  The shortcut is not taken for a Table register, and With fails.\<close>

theorem eval_with_table_subject_counterexample:
  "reg_get_entity example_world example_builtin example_program (example_with 0 0)
     example_iter 1 0 = 0x200
   \<and> ecs_entity_t_lo (f_mask (pair_to_filter example_world example_builtin example_program
        example_iter (example_with 0 0) (op_filter (example_with 0 0)))) = 0x200
   \<and> transitive (op_filter (example_with 0 0)) \<and> inclusive (op_filter (example_with 0 0))
   \<and> fst (eval_with example_world example_builtin example_program example_iter
        (example_with 0 0) 1 False) = False"
  by (simp add: vm_defs example_vm_defs example_defs)

end
